theory Spec2Isabelle
  imports Complex_Main
begin

section \<open>Exceptions\<close>

text \<open>
  A Python exception is a class and the message that \<open>str(e)\<close> gives. Only classes
  that derive from \<open>Exception\<close> occur; the hierarchy is flat below \<open>Exception\<close>.
\<close>

datatype exc_class = Exception | RuntimeError | TypeError | ValueError | OSError

datatype pyexc = PyExc exc_class string

fun exc_cls :: "pyexc \<Rightarrow> exc_class" where
  "exc_cls (PyExc c m) = c"

fun str_exc :: "pyexc \<Rightarrow> string" where
  "str_exc (PyExc c m) = m"

fun issubclass :: "exc_class \<Rightarrow> exc_class \<Rightarrow> bool" where
  "issubclass c d = (d = Exception \<or> c = d)"

text \<open>\<open>except exceptions as e\<close>, for a tuple of classes.\<close>

definition isinstance_any :: "pyexc \<Rightarrow> exc_class list \<Rightarrow> bool" where
  "isinstance_any e classes = list_ex (issubclass (exc_cls e)) classes"

section \<open>utils.py: retry\_backoff\<close>

text \<open>
  \<open>time.sleep(wait)\<close>: the delay is appended to the log of delays slept so far; a
  negative delay is rejected with a \<open>ValueError\<close>. Delays are rationals: the value
  \<open>base * 2 ** i\<close> is computed exactly, for an integer as for a float base.
\<close>

definition time_sleep :: "rat \<Rightarrow> rat list \<Rightarrow> pyexc + rat list" where
  "time_sleep secs slept =
     (if secs < 0 then Inl (PyExc ValueError ''sleep length must be non-negative'')
      else Inr (slept @ [secs]))"

text \<open>\<open>raise last_exc\<close>: raising \<open>None\<close> is itself a \<open>TypeError\<close>.\<close>

fun raise_last :: "pyexc option \<Rightarrow> pyexc" where
  "raise_last None = PyExc TypeError ''exceptions must derive from BaseException''"
| "raise_last (Some e) = e"

text \<open>
  The operation \<open>func\<close> is a zero-argument callable with effects: it maps the state
  of whatever it talks to, to its outcome (\<open>Inl\<close> the exception raised, \<open>Inr\<close> the value
  returned) and the new state. The loop runs over the indices of \<open>range(max_retries)\<close>
  that are still to come, with \<open>last_exc\<close>, the state and the log of delays.
\<close>

fun retry_loop ::
  "('s \<Rightarrow> (pyexc + 'a) \<times> 's) \<Rightarrow> rat \<Rightarrow> exc_class list \<Rightarrow> nat list \<Rightarrow> pyexc option \<Rightarrow>
     's \<times> rat list \<Rightarrow> (pyexc + 'a) \<times> 's \<times> rat list" where
  "retry_loop func base exceptions [] last_exc (s, slept) =
     (Inl (raise_last last_exc), s, slept)"
| "retry_loop func base exceptions (i # is) last_exc (s, slept) =
     (case func s of
        (Inr v, s') \<Rightarrow> (Inr v, s', slept)
      | (Inl e, s') \<Rightarrow>
          if isinstance_any e exceptions then
            (case time_sleep (base * 2 ^ i) slept of
               Inl err \<Rightarrow> (Inl err, s', slept)
             | Inr slept' \<Rightarrow> retry_loop func base exceptions is (Some e) (s', slept'))
          else (Inl e, s', slept))"

definition retry_backoff ::
  "('s \<Rightarrow> (pyexc + 'a) \<times> 's) \<Rightarrow> int \<Rightarrow> rat \<Rightarrow> exc_class list \<Rightarrow>
     's \<times> rat list \<Rightarrow> (pyexc + 'a) \<times> 's \<times> rat list" where
  "retry_backoff func max_retries base exceptions w =
     retry_loop func base exceptions [0..<nat max_retries] None w"

text \<open>The state after \<open>n\<close> successive calls of the operation.\<close>

fun state_after :: "('s \<Rightarrow> (pyexc + 'a) \<times> 's) \<Rightarrow> nat \<Rightarrow> 's \<Rightarrow> 's" where
  "state_after func 0 s = s"
| "state_after func (Suc n) s = state_after func n (snd (func s))"

text \<open>The outcome of call number \<open>j\<close> (from 0) of the operation, started in \<open>s\<close>.\<close>

definition outcome_at :: "('s \<Rightarrow> (pyexc + 'a) \<times> 's) \<Rightarrow> nat \<Rightarrow> 's \<Rightarrow> pyexc + 'a" where
  "outcome_at func j s = fst (func (state_after func j s))"

text \<open>The first \<open>k\<close> calls all raise.\<close>

definition fails_times :: "('s \<Rightarrow> (pyexc + 'a) \<times> 's) \<Rightarrow> nat \<Rightarrow> 's \<Rightarrow> bool" where
  "fails_times func k s = (\<forall>j<k. isl (outcome_at func j s))"

text \<open>The operation fails exactly \<open>k\<close> times and then returns \<open>v\<close>.\<close>

definition fails_then_succeeds ::
  "('s \<Rightarrow> (pyexc + 'a) \<times> 's) \<Rightarrow> nat \<Rightarrow> 'a \<Rightarrow> 's \<Rightarrow> bool" where
  "fails_then_succeeds func k v s = (fails_times func k s \<and> outcome_at func k s = Inr v)"

text \<open>
  An operation for examples: the state counts the calls made; the first \<open>k\<close> calls
  raise a \<open>RuntimeError\<close>, every later one returns \<open>v\<close>.
\<close>

definition flaky :: "nat \<Rightarrow> 'a \<Rightarrow> nat \<Rightarrow> (pyexc + 'a) \<times> nat" where
  "flaky k v n = (if n < k then Inl (PyExc RuntimeError ''boom'') else Inr v, Suc n)"

section \<open>Facts about retry\_backoff\<close>

lemma isinstance_any_Exception [simp]: "isinstance_any e [Exception]"
  by (simp add: isinstance_any_def)

lemma state_after_Suc_right:
  "state_after func (Suc n) s = snd (func (state_after func n s))"
  by (induction n arbitrary: s) simp_all

lemma fails_times_0 [simp]: "fails_times func 0 s"
  by (simp add: fails_times_def)

lemma fails_times_Suc:
  "fails_times func (Suc k) s \<longleftrightarrow> isl (fst (func s)) \<and> fails_times func k (snd (func s))"
proof -
  have "(\<forall>j<Suc k. isl (outcome_at func j s)) \<longleftrightarrow>
        isl (outcome_at func 0 s) \<and> (\<forall>j<k. isl (outcome_at func (Suc j) s))"
    by (metis less_Suc_eq_0_disj)
  then show ?thesis
    by (simp add: fails_times_def outcome_at_def)
qed

lemma outcome_at_Suc: "outcome_at func (Suc k) s = outcome_at func k (snd (func s))"
  by (simp add: outcome_at_def)

lemma state_after_flaky: "state_after (flaky k v) n m = n + m"
  by (induction n arbitrary: m) (simp_all add: flaky_def)

lemma outcome_at_flaky:
  "outcome_at (flaky k v) j m = (if j + m < k then Inl (PyExc RuntimeError ''boom'') else Inr v)"
  by (simp add: outcome_at_def state_after_flaky flaky_def)

lemma fails_times_flaky: "fails_times (flaky k v) k 0"
  by (simp add: fails_times_def outcome_at_flaky)

lemma fails_then_succeeds_flaky: "fails_then_succeeds (flaky k v) k v 0"
  by (simp add: fails_then_succeeds_def fails_times_flaky outcome_at_flaky)

text \<open>
  C9. For \<open>max_retries \<le> 0\<close> the loop body never runs: the operation is not invoked
  (its state is untouched), nothing is slept, no value is returned, and the caller
  sees the \<open>TypeError\<close> of \<open>raise None\<close>, which is no error of the operation.
\<close>

theorem retry_backoff_nonpositive:
  "max_retries \<le> 0 \<Longrightarrow>
   retry_backoff func max_retries base exceptions (s, slept) =
     (Inl (PyExc TypeError ''exceptions must derive from BaseException''), s, slept)"
  by (simp add: retry_backoff_def)

theorem retry_backoff_nonpositive_witness:
  "(0::int) \<le> 0 \<and>
   retry_backoff (flaky 0 ''ok'') 0 1 [Exception] (0, []) =
     (Inl (PyExc TypeError ''exceptions must derive from BaseException''), 0, [])"
  using retry_backoff_nonpositive [of 0 "flaky 0 ''ok''" 1 "[Exception]" 0 "[]"] by simp

end
